theory Spec2Isabelle
  imports Main "HOL-Library.Word"
begin

section \<open>JavaScript strings\<close>

text \<open>
  A JavaScript string is a sequence of UTF-16 code units. \<open>replace\<close> with a regular
  expression that has no \<open>u\<close> flag, \<open>trim\<close>, \<open>split\<close> and \<open>===\<close> all work on code
  units, so a string is a list of 16-bit words. \<open>lit\<close> turns an ASCII literal of the
  source into its code units.
\<close>

type_synonym code_unit = "16 word"
type_synonym jsstring = "code_unit list"

definition lit :: "string \<Rightarrow> jsstring" where
  "lit s = map of_char s"

subsection \<open>\<open>String.prototype.trim\<close>\<close>

text \<open>
  \<open>trim\<close> removes the WhiteSpace and LineTerminator code points of ECMAScript from both
  ends: TAB, LF, VT, FF, CR, SP, NBSP, U+1680, U+2000 to U+200A, U+2028, U+2029, U+202F,
  U+205F, U+3000 and U+FEFF. All of them are single code units.
\<close>

definition isWhiteSpace :: "code_unit \<Rightarrow> bool" where
  "isWhiteSpace c \<longleftrightarrow>
     c \<in> set [0x09, 0x0A, 0x0B, 0x0C, 0x0D, 0x20, 0xA0, 0x1680, 0x2028, 0x2029,
               0x202F, 0x205F, 0x3000, 0xFEFF]
     \<or> (0x2000 \<le> c \<and> c \<le> 0x200A)"

definition trim :: "jsstring \<Rightarrow> jsstring" where
  "trim s = rev (dropWhile isWhiteSpace (rev (dropWhile isWhiteSpace s)))"

subsection \<open>\<open>String.prototype.split\<close> with a one-character separator\<close>

text \<open>
  \<open>s.split(sep)\<close> for a separator of one code unit: the pieces between the occurrences
  of the separator, so \<open>n\<close> occurrences give \<open>n + 1\<close> pieces and the empty string gives
  one empty piece.
\<close>

fun split_on :: "code_unit \<Rightarrow> jsstring \<Rightarrow> jsstring list" where
  "split_on sep [] = [[]]"
| "split_on sep (c # cs) =
     (if c = sep then [] # split_on sep cs
      else (case split_on sep cs of
              [] \<Rightarrow> [[c]]
            | piece # pieces \<Rightarrow> (c # piece) # pieces))"

text \<open>Indexing an array: \<open>undefined\<close> (here \<open>None\<close>) out of range.\<close>

fun at_index :: "'a list \<Rightarrow> nat \<Rightarrow> 'a option" where
  "at_index [] i = None"
| "at_index (x # xs) 0 = Some x"
| "at_index (x # xs) (Suc i) = at_index xs i"

subsection \<open>\<open>replace(/[^a-z0-9]/gi, '_')\<close> and \<open>toLowerCase\<close>\<close>

text \<open>
  With the \<open>i\<close> flag and without the \<open>u\<close> flag, a code unit belongs to the class
  \<open>[a-z0-9]\<close> when its canonical form is the canonical form of a member of the class.
  Canonicalisation upper-cases; a code unit from 128 on is never mapped below 128, so
  outside ASCII only the fact that the result stays outside ASCII matters, and such a
  code unit is left as it is here.
\<close>

definition canonicalize :: "code_unit \<Rightarrow> code_unit" where
  "canonicalize c = (if 0x61 \<le> c \<and> c \<le> 0x7A then c - 0x20 else c)"

definition not_a_z_0_9_i :: "code_unit \<Rightarrow> bool" where
  "not_a_z_0_9_i c \<longleftrightarrow>
     canonicalize c \<notin> set (map canonicalize (lit ''abcdefghijklmnopqrstuvwxyz0123456789''))"

text \<open>
  A global replace of a pattern that matches single code units: scan from the left,
  put the replacement where the pattern matches, keep the code unit where it does not.
\<close>

fun replace_g :: "(code_unit \<Rightarrow> bool) \<Rightarrow> jsstring \<Rightarrow> jsstring \<Rightarrow> jsstring" where
  "replace_g matches replacement [] = []"
| "replace_g matches replacement (c # cs) =
     (if matches c then replacement @ replace_g matches replacement cs
      else c # replace_g matches replacement cs)"

text \<open>
  \<open>toLowerCase\<close> on ASCII. The Unicode case tables are not modelled: the only call is
  on the result of the replace above, which holds ASCII letters, digits and underscores
  only (lemma \<open>replace_g_ascii\<close>).
\<close>

definition toLowerCase :: "jsstring \<Rightarrow> jsstring" where
  "toLowerCase s = map (\<lambda>c. if 0x41 \<le> c \<and> c \<le> 0x5A then c + 0x20 else c) s"

subsection \<open>UTF-8 files\<close>

text \<open>
  \<open>fs.writeFileSync(_, s, "utf-8")\<close> encodes \<open>s\<close> as UTF-8 and
  \<open>fs.readFileSync(_, "utf-8")\<close> decodes the bytes. A surrogate pair is encoded as
  one code point and decoded as the same pair; a surrogate that is not part of a pair is
  encoded as U+FFFD. So what is read back from a written string is the string with its
  lone surrogates replaced by U+FFFD, and the file system below stores that text.
\<close>

definition isLeadSurrogate :: "code_unit \<Rightarrow> bool" where
  "isLeadSurrogate c \<longleftrightarrow> 0xD800 \<le> c \<and> c \<le> 0xDBFF"

definition isTrailSurrogate :: "code_unit \<Rightarrow> bool" where
  "isTrailSurrogate c \<longleftrightarrow> 0xDC00 \<le> c \<and> c \<le> 0xDFFF"

fun toWellFormed :: "jsstring \<Rightarrow> jsstring" where
  "toWellFormed [] = []"
| "toWellFormed [c] = (if isLeadSurrogate c \<or> isTrailSurrogate c then [0xFFFD] else [c])"
| "toWellFormed (c # d # cs) =
     (if isLeadSurrogate c \<and> isTrailSurrogate d then c # d # toWellFormed cs
      else if isLeadSurrogate c \<or> isTrailSurrogate c then 0xFFFD # toWellFormed (d # cs)
      else c # toWellFormed (d # cs))"

text \<open>
  The number of bytes of the UTF-8 encoding: one, two or three for a code unit, four for
  a surrogate pair, three for the U+FFFD that stands for a lone surrogate.
\<close>

definition utf8_units :: "code_unit \<Rightarrow> nat" where
  "utf8_units c = (if c < 0x80 then 1 else if c < 0x800 then 2 else 3)"

fun utf8_length :: "jsstring \<Rightarrow> nat" where
  "utf8_length [] = 0"
| "utf8_length [c] = utf8_units c"
| "utf8_length (c # d # cs) =
     (if isLeadSurrogate c \<and> isTrailSurrogate d then 4 + utf8_length cs
      else utf8_units c + utf8_length (d # cs))"

section \<open>The process and the outside world\<close>

text \<open>
  \<open>env\<close> is \<open>process.env\<close> after \<open>dotenv.config()\<close>; \<open>execPath\<close> is
  \<open>process.argv[0]\<close> and \<open>args\<close> is \<open>process.argv.slice(1)\<close>.

  The calls that the program awaits (the browser, the HTTP client) may reject, and
  \<open>fs.writeFileSync\<close> may throw; each of these is a branch below. The synchronous
  calls \<open>console.log\<close>, \<open>fs.existsSync\<close>, \<open>fs.readFileSync\<close> and \<open>spawn\<close> are
  taken to succeed. The timer that starts a poll cycle every \<open>CHECK_INTERVAL\<close>
  milliseconds is outside the model: a cycle is one call of \<open>checkForAllNewVideos\<close>.
\<close>

record process =
  env :: "jsstring \<rightharpoonup> jsstring"
  execPath :: jsstring
  args :: "jsstring list"

definition PUSHOVER_USER_KEY :: "process \<Rightarrow> jsstring option" where
  "PUSHOVER_USER_KEY p = env p (lit ''PUSHOVER_USER_KEY'')"

definition PUSHOVER_API_TOKEN :: "process \<Rightarrow> jsstring option" where
  "PUSHOVER_API_TOKEN p = env p (lit ''PUSHOVER_API_TOKEN'')"

text \<open>The guard of the conditional is the truthiness of a string: set and not empty.\<close>

definition YOUTUBE_CHANNEL_URLS :: "process \<Rightarrow> jsstring list" where
  "YOUTUBE_CHANNEL_URLS p =
     (case env p (lit ''YOUTUBE_CHANNEL_URLS'') of
        None \<Rightarrow> []
      | Some s \<Rightarrow> if s \<noteq> [] then map trim (split_on 0x2C s) else [])"

text \<open>
  An exception carries its \<open>message\<close>; an error of the HTTP client may carry the
  server's answer, and \<open>response\<close> is then the text of
  \<open>JSON.stringify(error.response.data)\<close>.
\<close>

record error =
  message :: jsstring
  response :: "jsstring option"

record video =
  title :: jsstring
  link :: jsstring

record pushoverPayload =
  token :: "jsstring option"
  user :: "jsstring option"
  message :: jsstring
  title :: jsstring
  url :: jsstring
  url_title :: jsstring
  priority :: int
  sound :: jsstring
  retry :: int
  expire :: int

text \<open>
  What the outside world answers during the check of one channel: each awaited call
  either resolves (\<open>Inr\<close>) or rejects with an error (\<open>Inl\<close>). \<open>browser.close()\<close> is
  called at three places of \<open>getLatestVideo\<close>, each at most once in a run, and has one
  answer per place. \<open>accept_button\<close> tells whether the cookie button is on the page;
  \<open>querySelector\<close> gives the \<open>textContent\<close> and the \<open>href\<close> of the first video
  link, when there is one. \<open>writeFileSync\<close> is the answer of the file system to the
  write of the title: it succeeds, or it throws an error and leaves the file untouched
  (\<open>None\<close>: the file could not be opened) or with some contents (truncated, partly
  written).
\<close>

record responses =
  launch :: "error + unit"
  newPage :: "error + unit"
  goto :: "error + unit"
  close_on_goto_error :: "error + unit"
  scrollBy :: "error + unit"
  accept_button :: "error + bool"
  click :: "error + unit"
  querySelector :: "error + (jsstring \<times> jsstring) option"
  close :: "error + unit"
  close_in_catch :: "error + unit"
  writeFileSync :: "(error \<times> jsstring option) + unit"
  post :: "error + unit"

text \<open>
  The effects of the process, in the order in which they happen. The time stamp that
  \<open>logWithTimestamp\<close> puts before a message is left out.
\<close>

datatype event =
    Log jsstring
  | WriteFile jsstring jsstring
  | Post jsstring pushoverPayload
  | Spawn jsstring "jsstring list"
  | Exit int

record world =
  files :: "jsstring \<rightharpoonup> jsstring"
  trace :: "event list"

text \<open>
  A call returns a value, throws (an \<open>async\<close> function rejects), or ends the process
  with \<open>process.exit\<close>, after which nothing runs.
\<close>

datatype 'a completion = Returned 'a | Thrown error | Exited

type_synonym 'a io = "world \<Rightarrow> 'a completion \<times> world"

definition ret :: "'a \<Rightarrow> 'a io" where
  "ret a w = (Returned a, w)"

definition bind_io :: "'a io \<Rightarrow> ('a \<Rightarrow> 'b io) \<Rightarrow> 'b io" where
  "bind_io f g w =
     (case f w of
        (Returned a, w') \<Rightarrow> g a w'
      | (Thrown e, w') \<Rightarrow> (Thrown e, w')
      | (Exited, w') \<Rightarrow> (Exited, w'))"

definition try_catch :: "'a io \<Rightarrow> (error \<Rightarrow> 'a io) \<Rightarrow> 'a io" where
  "try_catch body handler w =
     (case body w of
        (Thrown e, w') \<Rightarrow> handler e w'
      | r \<Rightarrow> r)"

definition await :: "error + 'a \<Rightarrow> 'a io" where
  "await answer w = (case answer of Inr a \<Rightarrow> (Returned a, w) | Inl e \<Rightarrow> (Thrown e, w))"

definition emit :: "event \<Rightarrow> unit io" where
  "emit e w = (Returned (), w\<lparr>trace := trace w @ [e]\<rparr>)"

definition exit_process :: "int \<Rightarrow> 'a io" where
  "exit_process code w = (Exited, w\<lparr>trace := trace w @ [Exit code]\<rparr>)"

section \<open>The program\<close>

definition CHECK_INTERVAL :: int where
  "CHECK_INTERVAL = 60 * 1000"

definition logWithTimestamp :: "jsstring \<Rightarrow> unit io" where
  "logWithTimestamp msg = emit (Log msg)"

definition restartScript :: "process \<Rightarrow> 'a io" where
  "restartScript p =
     bind_io (logWithTimestamp (lit ''Restarting script due to error...'')) (\<lambda>_.
     bind_io (emit (Spawn (execPath p) (args p))) (\<lambda>_.
     exit_process 1))"

definition getLatestVideo :: "process \<Rightarrow> responses \<Rightarrow> jsstring \<Rightarrow> video option io" where
  "getLatestVideo p r channelUrl =
     try_catch
      (bind_io (await (launch r)) (\<lambda>_.
       bind_io (await (newPage r)) (\<lambda>_.
       bind_io (logWithTimestamp (lit ''Navigating to channel page: '' @ channelUrl)) (\<lambda>_.
       bind_io
         (try_catch (await (goto r)) (\<lambda>err.
            bind_io (logWithTimestamp
              (lit ''Error navigating to '' @ channelUrl @ lit '': '' @ error.message err)) (\<lambda>_.
            bind_io (await (close_on_goto_error r)) (\<lambda>_.
            restartScript p)))) (\<lambda>_.
       bind_io (await (scrollBy r)) (\<lambda>_.
       bind_io (await (accept_button r)) (\<lambda>acceptButton.
       bind_io
         (if acceptButton
          then bind_io (logWithTimestamp (lit ''Accepting cookies'')) (\<lambda>_. await (click r))
          else ret ()) (\<lambda>_.
       bind_io (await (querySelector r)) (\<lambda>element.
       let latestVideo =
             (case element of
                None \<Rightarrow> None
              | Some (textContent, href) \<Rightarrow>
                  Some \<lparr>video.title = trim textContent, link = href\<rparr>)
       in
       bind_io (await (close r)) (\<lambda>_.
       (case latestVideo of
          None \<Rightarrow>
            bind_io (logWithTimestamp
              (lit ''Could not find the latest video for: '' @ channelUrl)) (\<lambda>_.
            ret None)
        | Some v \<Rightarrow> ret (Some v))))))))))))
      (\<lambda>err.
         bind_io (case launch r of Inr _ \<Rightarrow> await (close_in_catch r) | Inl _ \<Rightarrow> ret ()) (\<lambda>_.
         bind_io (logWithTimestamp
           (lit ''Unexpected error in getLatestVideo: '' @ error.message err)) (\<lambda>_.
         restartScript p)))"

definition getLatestTitleFileName :: "jsstring \<Rightarrow> jsstring" where
  "getLatestTitleFileName channelUrl =
     (let safeName = toLowerCase (replace_g not_a_z_0_9_i (lit ''_'') channelUrl)
      in safeName @ lit ''_latest_title.txt'')"

definition readLastTitle :: "jsstring \<Rightarrow> world \<Rightarrow> jsstring option" where
  "readLastTitle filename w =
     (case files w filename of
        None \<Rightarrow> None
      | Some contents \<Rightarrow>
          (let title = trim contents in if title \<noteq> [] then Some title else None))"

text \<open>
  \<open>fs.writeFileSync\<close> throws \<open>ENAMETOOLONG\<close> when the file name is longer than the
  255 bytes that a file system allows for a name; every name that the program builds is
  a name in the working directory. Otherwise the file system decides.
\<close>

definition NAME_MAX :: nat where
  "NAME_MAX = 255"

definition ENAMETOOLONG :: "jsstring \<Rightarrow> error" where
  "ENAMETOOLONG filename =
     \<lparr>error.message = lit ''ENAMETOOLONG: name too long, open '' @ 0x27 # filename @ [0x27],
      response = None\<rparr>"

definition writeLastTitle ::
  "jsstring \<Rightarrow> jsstring \<Rightarrow> (error \<times> jsstring option) + unit \<Rightarrow> unit io" where
  "writeLastTitle new_title filename answer w =
     (if NAME_MAX < utf8_length filename then (Thrown (ENAMETOOLONG filename), w)
      else
        (case answer of
           Inr _ \<Rightarrow>
             (Returned (),
              w\<lparr>files := (files w)(filename \<mapsto> toWellFormed new_title),
                trace := trace w @ [WriteFile filename new_title]\<rparr>)
         | Inl (err, left) \<Rightarrow>
             (Thrown err,
              w\<lparr>files := (case left of
                            None \<Rightarrow> files w
                          | Some contents \<Rightarrow> (files w)(filename \<mapsto> contents))\<rparr>)))"

text \<open>
  \<open>channelUrl.split('@')[1]?.split('/')[0] || 'YouTube Channel'\<close>: the default
  stands in when there is no second piece or the name is the empty string.
\<close>

definition channelName_of :: "jsstring \<Rightarrow> jsstring" where
  "channelName_of channelUrl =
     (case Option.bind (at_index (split_on 0x40 channelUrl) 1)
             (\<lambda>s. at_index (split_on 0x2F s) 0) of
        None \<Rightarrow> lit ''YouTube Channel''
      | Some name \<Rightarrow> if name \<noteq> [] then name else lit ''YouTube Channel'')"

definition axios_post :: "jsstring \<Rightarrow> pushoverPayload \<Rightarrow> error + unit \<Rightarrow> unit io" where
  "axios_post endpoint payload answer = bind_io (emit (Post endpoint payload)) (\<lambda>_. await answer)"

text \<open>The object literal \<open>pushoverPayload\<close> of \<open>sendPushoverNotification\<close>.\<close>

definition pushoverPayload_of :: "process \<Rightarrow> video \<Rightarrow> jsstring \<Rightarrow> pushoverPayload" where
  "pushoverPayload_of p v channelUrl =
     (let channelName = channelName_of channelUrl
      in \<lparr>token = PUSHOVER_API_TOKEN p,
          user = PUSHOVER_USER_KEY p,
          message = lit ''New video on '' @ channelName @ lit '': '' @ video.title v,
          title = lit ''New YouTube Video'',
          url = link v,
          url_title = lit ''Watch Video'',
          priority = 2,
          sound = lit ''siren'',
          retry = 30,
          expire = 3600\<rparr>)"

definition sendPushoverNotification ::
  "process \<Rightarrow> responses \<Rightarrow> video \<Rightarrow> jsstring \<Rightarrow> unit io" where
  "sendPushoverNotification p r v channelUrl =
     try_catch
      (bind_io (axios_post (lit ''https://api.pushover.net/1/messages.json'')
                  (pushoverPayload_of p v channelUrl) (post r)) (\<lambda>_.
       logWithTimestamp (lit ''Pushover notification sent successfully!'')))
      (\<lambda>err.
         logWithTimestamp (lit ''Failed to send Pushover notification: '' @
           (case error.response err of Some data \<Rightarrow> data | None \<Rightarrow> error.message err)))"

definition checkForNewVideo :: "process \<Rightarrow> responses \<Rightarrow> jsstring \<Rightarrow> unit io" where
  "checkForNewVideo p r channelUrl =
     bind_io (logWithTimestamp (lit ''Checking for new video on: '' @ channelUrl)) (\<lambda>_.
     bind_io (getLatestVideo p r channelUrl) (\<lambda>latestVideo.
     (case latestVideo of
        None \<Rightarrow> logWithTimestamp (lit ''No video found for: '' @ channelUrl)
      | Some v \<Rightarrow>
          (let latestTitleFile = getLatestTitleFileName channelUrl in
           (\<lambda>w.
             (let storedTitle = readLastTitle latestTitleFile w in
              if storedTitle = Some (video.title v)
              then logWithTimestamp
                     (lit ''No new video. The latest video is still: '' @ video.title v) w
              else
                bind_io (logWithTimestamp (lit ''New video detected: '' @ video.title v)) (\<lambda>_.
                bind_io (writeLastTitle (video.title v) latestTitleFile (writeFileSync r)) (\<lambda>_.
                bind_io (sendPushoverNotification p r v channelUrl) (\<lambda>_.
                logWithTimestamp (lit ''Update complete.'')))) w))))))"

text \<open>
  The \<open>for ... of\<close> loop of \<open>checkForAllNewVideos\<close>; \<open>rs i\<close> is what the outside
  world answers during the \<open>i\<close>-th check of the cycle.
\<close>

fun for_channels :: "process \<Rightarrow> (nat \<Rightarrow> responses) \<Rightarrow> nat \<Rightarrow> jsstring list \<Rightarrow> unit io" where
  "for_channels p rs i [] = ret ()"
| "for_channels p rs i (channelUrl # rest) =
     bind_io (checkForNewVideo p (rs i) channelUrl) (\<lambda>_. for_channels p rs (Suc i) rest)"

definition checkForAllNewVideos :: "process \<Rightarrow> (nat \<Rightarrow> responses) \<Rightarrow> unit io" where
  "checkForAllNewVideos p rs =
     bind_io (logWithTimestamp (lit ''Checking all configured channels...'')) (\<lambda>_.
     for_channels p rs 0 (YOUTUBE_CHANNEL_URLS p))"

subsection \<open>Reading a trace\<close>

definition new_events :: "world \<Rightarrow> world \<Rightarrow> event list" where
  "new_events w w' = drop (length (trace w)) (trace w')"

fun posts :: "event list \<Rightarrow> (jsstring \<times> pushoverPayload) list" where
  "posts [] = []"
| "posts (Post endpoint payload # es) = (endpoint, payload) # posts es"
| "posts (e # es) = posts es"

fun writes :: "event list \<Rightarrow> (jsstring \<times> jsstring) list" where
  "writes [] = []"
| "writes (WriteFile filename contents # es) = (filename, contents) # writes es"
| "writes (e # es) = writes es"

fun spawns :: "event list \<Rightarrow> (jsstring \<times> jsstring list) list" where
  "spawns [] = []"
| "spawns (Spawn command arguments # es) = (command, arguments) # spawns es"
| "spawns (e # es) = spawns es"

section \<open>Notions used in the statements\<close>

subsection \<open>The file name, in the words of the specification\<close>

text \<open>
  Letters and digits are the ASCII ones, a character is a code unit: every code unit
  that is not a letter or a digit becomes an underscore, the result is lower-cased and
  the suffix is appended.
\<close>

definition isAsciiLetterOrDigit :: "code_unit \<Rightarrow> bool" where
  "isAsciiLetterOrDigit c \<longleftrightarrow>
     (0x61 \<le> c \<and> c \<le> 0x7A) \<or> (0x41 \<le> c \<and> c \<le> 0x5A) \<or> (0x30 \<le> c \<and> c \<le> 0x39)"

definition lowercased :: "code_unit \<Rightarrow> code_unit" where
  "lowercased c = (if 0x41 \<le> c \<and> c \<le> 0x5A then c + 0x20 else c)"

definition fileName_spec :: "jsstring \<Rightarrow> jsstring" where
  "fileName_spec channelUrl =
     map lowercased (map (\<lambda>c. if isAsciiLetterOrDigit c then c else 0x5F) channelUrl)
     @ lit ''_latest_title.txt''"

subsection \<open>Computations that only extend the trace\<close>

text \<open>
  \<open>appends f c es\<close>: in every world, \<open>f\<close> completes with \<open>c\<close>, leaves the files
  alone and adds the events \<open>es\<close> to the trace. \<open>confined allowed f\<close>: \<open>f\<close> is such
  a computation and all its events are \<open>allowed\<close>.
\<close>

definition appends :: "'a io \<Rightarrow> 'a completion \<Rightarrow> event list \<Rightarrow> bool" where
  "appends f c es \<longleftrightarrow> (\<forall>w. f w = (c, w\<lparr>trace := trace w @ es\<rparr>))"

definition confined :: "(event \<Rightarrow> bool) \<Rightarrow> 'a io \<Rightarrow> bool" where
  "confined allowed f \<longleftrightarrow> (\<exists>c es. appends f c es \<and> list_all allowed es)"

fun local_event :: "event \<Rightarrow> bool" where
  "local_event (WriteFile filename contents) = False"
| "local_event (Post endpoint payload) = False"
| "local_event e = True"

text \<open>
  The fetch does not look at the world, so what it returns and the events it adds can
  be read off a run in the world with no file and no event.
\<close>

definition nowhere :: world where
  "nowhere = \<lparr>files = Map.empty, trace = []\<rparr>"

definition fetched :: "process \<Rightarrow> responses \<Rightarrow> jsstring \<Rightarrow> video option completion" where
  "fetched p r channelUrl = fst (getLatestVideo p r channelUrl nowhere)"

definition fetch_events :: "process \<Rightarrow> responses \<Rightarrow> jsstring \<Rightarrow> event list" where
  "fetch_events p r channelUrl = trace (snd (getLatestVideo p r channelUrl nowhere))"

subsection \<open>A write that returns\<close>

text \<open>
  The write of a channel's title returns when the name of the channel's file is not too
  long and the file system accepts the write.
\<close>

definition write_returns :: "responses \<Rightarrow> jsstring \<Rightarrow> bool" where
  "write_returns r channelUrl \<longleftrightarrow>
     utf8_length (getLatestTitleFileName channelUrl) \<le> NAME_MAX \<and> writeFileSync r = Inr ()"

text \<open>A channel page with a query of 203 letters: a URL of 239 code units.\<close>

definition long_url :: jsstring where
  "long_url = lit ''https://www.youtube.com/@x/videos?a='' @ replicate 203 0x61"

subsection \<open>Joining pieces\<close>

text \<open>\<open>Array.prototype.join\<close> with a separator of one code unit, to say what a split is.\<close>

fun join_with :: "code_unit \<Rightarrow> jsstring list \<Rightarrow> jsstring" where
  "join_with sep [] = []"
| "join_with sep [piece] = piece"
| "join_with sep (piece # next_piece # pieces) =
     piece @ sep # join_with sep (next_piece # pieces)"

subsection \<open>Concrete inputs\<close>

text \<open>
  A run in which every awaited call resolves, there is no cookie button and the first
  video link has the given text and address; and a process that monitors two channels.
\<close>

definition resolving :: "jsstring \<Rightarrow> jsstring \<Rightarrow> responses" where
  "resolving textContent href =
     \<lparr>launch = Inr (), newPage = Inr (), goto = Inr (), close_on_goto_error = Inr (),
      scrollBy = Inr (), accept_button = Inr False, click = Inr (),
      querySelector = Inr (Some (textContent, href)), close = Inr (), close_in_catch = Inr (),
      writeFileSync = Inr (), post = Inr ()\<rparr>"

definition demo_process :: process where
  "demo_process =
     \<lparr>env = [lit ''YOUTUBE_CHANNEL_URLS'' \<mapsto> lit ''y/@A, y/@a''],
      execPath = lit ''node'', args = [lit ''p.js'']\<rparr>"

text \<open>
  A run in which the navigation times out and \<open>browser.close()\<close> rejects in both
  handlers.
\<close>

definition closing_fails :: responses where
  "closing_fails =
     (resolving (lit ''T'') (lit ''L''))
       \<lparr>goto := Inl \<lparr>error.message = lit ''timeout'', response = None\<rparr>,
        close_on_goto_error := Inl \<lparr>error.message = lit ''closed'', response = None\<rparr>,
        close_in_catch := Inl \<lparr>error.message = lit ''closed'', response = None\<rparr>\<rparr>"

section \<open>Strings\<close>

lemma minus_0x20_eq: "(c - 0x20 = (k::code_unit)) = (c = k + 0x20)"
  by auto

lemma not_a_z_0_9_i_iff: "not_a_z_0_9_i c \<longleftrightarrow> \<not> isAsciiLetterOrDigit c"
proof (cases "0x61 \<le> c \<and> c \<le> 0x7A")
  case True
  then show ?thesis
    unfolding not_a_z_0_9_i_def canonicalize_def lit_def isAsciiLetterOrDigit_def
    apply (simp add: minus_0x20_eq)
    apply unat_arith
    done
next
  case False
  then show ?thesis
    unfolding not_a_z_0_9_i_def canonicalize_def lit_def isAsciiLetterOrDigit_def
    apply simp
    apply unat_arith
    done
qed

lemma replace_g_single:
  "replace_g matches [u] s = map (\<lambda>c. if matches c then u else c) s"
  by (induction s) simp_all

lemma lit_underscore: "lit ''_'' = [0x5F]"
  by (simp add: lit_def)

lemma replace_g_ascii:
  "c \<in> set (replace_g not_a_z_0_9_i (lit ''_'') s) \<Longrightarrow> c < 0x80"
  unfolding lit_underscore replace_g_single
  by (auto simp: not_a_z_0_9_i_iff isAsciiLetterOrDigit_def split: if_splits) unat_arith+

lemma length_suffix: "length (lit ''_latest_title.txt'') = 17"
  by (simp add: lit_def)

lemma dropWhile_length_eq:
  "length (dropWhile P xs) = length xs \<Longrightarrow> dropWhile P xs = xs"
proof -
  assume h: "length (dropWhile P xs) = length xs"
  have "length (takeWhile P xs) + length (dropWhile P xs) = length xs"
    by (metis length_append takeWhile_dropWhile_id)
  with h have "takeWhile P xs = []" by simp
  then show ?thesis by (metis append_Nil takeWhile_dropWhile_id)
qed

lemma length_trim_le: "length (trim s) \<le> length s"
  unfolding trim_def
  by (metis length_dropWhile_le length_rev le_trans)

lemma trim_length_eq:
  assumes "length (trim s) = length s"
  shows "trim s = s"
proof -
  let ?a = "dropWhile isWhiteSpace s"
  have 1: "length (dropWhile isWhiteSpace (rev ?a)) \<le> length ?a"
    by (metis length_dropWhile_le length_rev)
  have 2: "length ?a \<le> length s"
    by (rule length_dropWhile_le)
  from assms have 3: "length (dropWhile isWhiteSpace (rev ?a)) = length s"
    by (simp add: trim_def)
  from 1 2 3 have "length ?a = length s" by simp
  then have a: "?a = s" by (rule dropWhile_length_eq)
  from 3 a have "length (dropWhile isWhiteSpace (rev s)) = length (rev s)" by simp
  then have "dropWhile isWhiteSpace (rev s) = rev s" by (rule dropWhile_length_eq)
  with a show ?thesis by (simp add: trim_def)
qed

lemma trim_empty_iff: "trim s = [] \<longleftrightarrow> (\<forall>c \<in> set s. isWhiteSpace c)"
proof
  assume "trim s = []"
  then have "dropWhile isWhiteSpace (rev (dropWhile isWhiteSpace s)) = []"
    by (simp add: trim_def)
  then have "\<forall>c \<in> set (rev (dropWhile isWhiteSpace s)). isWhiteSpace c"
    by simp
  then have "\<forall>c \<in> set (dropWhile isWhiteSpace s). isWhiteSpace c" by simp
  moreover have "dropWhile isWhiteSpace s \<noteq> [] \<Longrightarrow> \<not> isWhiteSpace (hd (dropWhile isWhiteSpace s))"
    by (rule hd_dropWhile)
  ultimately have "dropWhile isWhiteSpace s = []"
    by (metis hd_in_set)
  then show "\<forall>c \<in> set s. isWhiteSpace c" by simp
next
  assume "\<forall>c \<in> set s. isWhiteSpace c"
  then have "dropWhile isWhiteSpace s = []" by simp
  then show "trim s = []" unfolding trim_def by (simp del: dropWhile_eq_Nil_conv)
qed

lemma dropWhile_fix_iff: "dropWhile P xs = xs \<longleftrightarrow> xs = [] \<or> \<not> P (hd xs)"
  by (cases xs) (auto dest: dropWhile_length_eq[symmetric] simp: dropWhile_eq_Cons_conv)

lemma dropWhile_rev_fix:
  assumes a: "dropWhile P a = a"
  shows "dropWhile P (rev (dropWhile P (rev a))) = rev (dropWhile P (rev a))"
proof (cases "dropWhile P (rev a) = []")
  case True
  then show ?thesis by (simp del: dropWhile_eq_Nil_conv)
next
  case False
  define b where "b = dropWhile P (rev a)"
  from False have b_ne: "b \<noteq> []" by (simp add: b_def del: dropWhile_eq_Nil_conv)
  obtain pre where pre: "rev a = pre @ b"
    unfolding b_def by (metis takeWhile_dropWhile_id)
  then have a_eq: "a = rev b @ rev pre" by (metis rev_append rev_rev_ident)
  with b_ne have a_ne: "a \<noteq> []" by simp
  from a_eq b_ne have "hd a = hd (rev b)" by simp
  moreover from a a_ne have "\<not> P (hd a)" by (simp add: dropWhile_fix_iff)
  ultimately have "\<not> P (hd (rev b))" by simp
  then have "dropWhile P (rev b) = rev b" by (simp add: dropWhile_fix_iff)
  then show ?thesis by (simp only: b_def)
qed

lemma trim_trim: "trim (trim s) = trim s"
proof -
  define a where "a = dropWhile isWhiteSpace s"
  define b where "b = dropWhile isWhiteSpace (rev a)"
  have a: "dropWhile isWhiteSpace a = a" by (simp add: a_def)
  have b: "dropWhile isWhiteSpace b = b" by (simp add: b_def)
  have rb: "dropWhile isWhiteSpace (rev b) = rev b"
    unfolding b_def using a by (rule dropWhile_rev_fix)
  have t: "trim s = rev b" by (simp add: trim_def a_def b_def)
  have "trim (rev b) = rev b"
    unfolding trim_def rb rev_rev_ident b ..
  then show ?thesis by (simp only: t)
qed

lemma length_toWellFormed: "length (toWellFormed s) = length s"
  by (induction s rule: toWellFormed.induct) simp_all

lemma whiteSpace_not_surrogate:
  "isWhiteSpace c \<Longrightarrow> \<not> isLeadSurrogate c \<and> \<not> isTrailSurrogate c"
  unfolding isWhiteSpace_def isLeadSurrogate_def isTrailSurrogate_def
  by (auto; unat_arith)

lemma toWellFormed_whiteSpace:
  "\<forall>c \<in> set s. isWhiteSpace c \<Longrightarrow> toWellFormed s = s"
  by (induction s rule: toWellFormed.induct) (auto dest: whiteSpace_not_surrogate)

lemma readLastTitle_writeLastTitle:
  "utf8_length filename \<le> NAME_MAX \<Longrightarrow>
   readLastTitle filename (snd (writeLastTitle t filename (Inr ()) w)) =
     (if trim (toWellFormed t) = [] then None else Some (trim (toWellFormed t)))"
  by (simp add: readLastTitle_def writeLastTitle_def)

lemma ascii_not_surrogate: "c < 0x80 \<Longrightarrow> \<not> isLeadSurrogate c"
  unfolding isLeadSurrogate_def by unat_arith

lemma utf8_length_ascii: "\<forall>c \<in> set s. c < 0x80 \<Longrightarrow> utf8_length s = length s"
  by (induction s rule: utf8_length.induct) (auto simp: utf8_units_def ascii_not_surrogate)

lemma lowercased_ascii:
  "lowercased (if isAsciiLetterOrDigit c then c else 0x5F) < 0x80"
  unfolding lowercased_def isAsciiLetterOrDigit_def
  by (auto; unat_arith)

lemma suffix_ascii: "c \<in> set (lit ''_latest_title.txt'') \<Longrightarrow> c < 0x80"
  by (auto simp: lit_def)

lemma fileName_spec_ascii: "c \<in> set (fileName_spec channelUrl) \<Longrightarrow> c < 0x80"
  unfolding fileName_spec_def
  by (auto simp: lowercased_ascii suffix_ascii)

lemma length_fileName_spec: "length (fileName_spec channelUrl) = length channelUrl + 17"
  by (simp add: fileName_spec_def length_suffix)

section \<open>Computations\<close>

lemma confined_ret: "confined ok (ret a)"
  unfolding confined_def appends_def ret_def
  by (intro exI[of _ "Returned a"] exI[of _ "[]"]) simp

lemma confined_await: "confined ok (await x)"
proof (cases x)
  case (Inl e)
  then show ?thesis
    unfolding confined_def appends_def await_def
    by (intro exI[of _ "Thrown e"] exI[of _ "[]"]) simp
next
  case (Inr a)
  then show ?thesis
    unfolding confined_def appends_def await_def
    by (intro exI[of _ "Returned a"] exI[of _ "[]"]) simp
qed

lemma confined_emit: "ok e \<Longrightarrow> confined ok (emit e)"
  unfolding confined_def appends_def emit_def
  by (intro exI[of _ "Returned ()"] exI[of _ "[e]"]) simp

lemma confined_exit_process: "ok (Exit code) \<Longrightarrow> confined ok (exit_process code)"
  unfolding confined_def appends_def exit_process_def
  by (intro exI[of _ "Exited"] exI[of _ "[Exit code]"]) simp

lemma confined_bind_io:
  assumes f: "confined ok f" and g: "\<And>a. confined ok (g a)"
  shows "confined ok (bind_io f g)"
proof -
  from f obtain c es where f': "\<And>w. f w = (c, w\<lparr>trace := trace w @ es\<rparr>)"
    and es: "list_all ok es"
    unfolding confined_def appends_def by blast
  show ?thesis
  proof (cases c)
    case (Returned a)
    from g[of a] obtain c' es' where g': "\<And>w. g a w = (c', w\<lparr>trace := trace w @ es'\<rparr>)"
      and es': "list_all ok es'"
      unfolding confined_def appends_def by blast
    show ?thesis
      unfolding confined_def appends_def
      by (intro exI[of _ c'] exI[of _ "es @ es'"]) (simp add: bind_io_def f' g' Returned es es')
  next
    case (Thrown e)
    show ?thesis
      unfolding confined_def appends_def
      by (intro exI[of _ "Thrown e"] exI[of _ es]) (simp add: bind_io_def f' Thrown es)
  next
    case Exited
    show ?thesis
      unfolding confined_def appends_def
      by (intro exI[of _ Exited] exI[of _ es]) (simp add: bind_io_def f' Exited es)
  qed
qed

lemma confined_try_catch:
  assumes f: "confined ok f" and h: "\<And>e. confined ok (h e)"
  shows "confined ok (try_catch f h)"
proof -
  from f obtain c es where f': "\<And>w. f w = (c, w\<lparr>trace := trace w @ es\<rparr>)"
    and es: "list_all ok es"
    unfolding confined_def appends_def by blast
  show ?thesis
  proof (cases c)
    case (Returned a)
    show ?thesis
      unfolding confined_def appends_def
      by (intro exI[of _ "Returned a"] exI[of _ es]) (simp add: try_catch_def f' Returned es)
  next
    case (Thrown e)
    from h[of e] obtain c' es' where h': "\<And>w. h e w = (c', w\<lparr>trace := trace w @ es'\<rparr>)"
      and es': "list_all ok es'"
      unfolding confined_def appends_def by blast
    show ?thesis
      unfolding confined_def appends_def
      by (intro exI[of _ c'] exI[of _ "es @ es'"]) (simp add: try_catch_def f' h' Thrown es es')
  next
    case Exited
    show ?thesis
      unfolding confined_def appends_def
      by (intro exI[of _ Exited] exI[of _ es]) (simp add: try_catch_def f' Exited es)
  qed
qed

lemma confined_logWithTimestamp: "confined local_event (logWithTimestamp msg)"
  unfolding logWithTimestamp_def by (rule confined_emit) simp

lemma confined_restartScript: "confined local_event (restartScript p)"
  unfolding restartScript_def
  by (intro confined_bind_io confined_logWithTimestamp confined_emit confined_exit_process)
     simp_all

lemmas confined_intros =
  confined_bind_io confined_try_catch confined_logWithTimestamp confined_restartScript
  confined_await confined_ret

lemma confined_getLatestVideo: "confined local_event (getLatestVideo p r channelUrl)"
  unfolding getLatestVideo_def Let_def
  by (intro confined_intros) (auto intro!: confined_intros split: option.splits sum.splits)

lemma confined_eq:
  assumes "confined ok f"
  shows "f w = (fst (f nowhere), w\<lparr>trace := trace w @ trace (snd (f nowhere))\<rparr>)"
    and "list_all ok (trace (snd (f nowhere)))"
proof -
  from assms obtain c es where f': "\<And>w. f w = (c, w\<lparr>trace := trace w @ es\<rparr>)"
    and es: "list_all ok es"
    unfolding confined_def appends_def by blast
  have c: "fst (f nowhere) = c" by (simp add: f')
  have t: "trace (snd (f nowhere)) = es" by (simp add: f' nowhere_def)
  from c t show "f w = (fst (f nowhere), w\<lparr>trace := trace w @ trace (snd (f nowhere))\<rparr>)"
    by (simp add: f'[of w])
  from t es show "list_all ok (trace (snd (f nowhere)))" by simp
qed

lemma getLatestVideo_eq:
  "getLatestVideo p r channelUrl w =
     (fetched p r channelUrl, w\<lparr>trace := trace w @ fetch_events p r channelUrl\<rparr>)"
  unfolding fetched_def fetch_events_def
  by (rule confined_eq) (rule confined_getLatestVideo)

lemma posts_local: "list_all local_event es \<Longrightarrow> posts es = []"
  by (induction es rule: posts.induct) simp_all

lemma writes_local: "list_all local_event es \<Longrightarrow> writes es = []"
  by (induction es rule: writes.induct) simp_all

lemma fetch_events_local: "list_all local_event (fetch_events p r channelUrl)"
  unfolding fetch_events_def
  by (rule confined_eq) (rule confined_getLatestVideo)

lemma posts_append: "posts (es @ es') = posts es @ posts es'"
  by (induction es rule: posts.induct) simp_all

lemma writes_append: "writes (es @ es') = writes es @ writes es'"
  by (induction es rule: writes.induct) simp_all

lemma spawns_append: "spawns (es @ es') = spawns es @ spawns es'"
  by (induction es rule: spawns.induct) simp_all

lemma new_events_append: "new_events w (w'\<lparr>trace := trace w @ es\<rparr>) = es"
  by (simp add: new_events_def)

section \<open>One poll step\<close>

lemma sendPushoverNotification_eq:
  "sendPushoverNotification p r v channelUrl w =
     (Returned (),
      w\<lparr>trace := trace w @
         [Post (lit ''https://api.pushover.net/1/messages.json'') (pushoverPayload_of p v channelUrl),
          Log (case post r of
                 Inr _ \<Rightarrow> lit ''Pushover notification sent successfully!''
               | Inl err \<Rightarrow> lit ''Failed to send Pushover notification: '' @
                   (case error.response err of Some data \<Rightarrow> data | None \<Rightarrow> error.message err))]\<rparr>)"
  by (cases "post r")
     (simp_all add: sendPushoverNotification_def try_catch_def bind_io_def axios_post_def
        emit_def await_def logWithTimestamp_def)

lemma readLastTitle_trace [simp]:
  "readLastTitle filename (w\<lparr>trace := t\<rparr>) = readLastTitle filename w"
  by (simp add: readLastTitle_def)

lemma checkForNewVideo_eq:
  "checkForNewVideo p r channelUrl w =
     (let w1 = w\<lparr>trace := trace w @
                 Log (lit ''Checking for new video on: '' @ channelUrl) # fetch_events p r channelUrl\<rparr>
      in case fetched p r channelUrl of
           Thrown e \<Rightarrow> (Thrown e, w1)
         | Exited \<Rightarrow> (Exited, w1)
         | Returned None \<Rightarrow>
             (Returned (), w1\<lparr>trace := trace w1 @ [Log (lit ''No video found for: '' @ channelUrl)]\<rparr>)
         | Returned (Some v) \<Rightarrow>
             if readLastTitle (getLatestTitleFileName channelUrl) w = Some (video.title v)
             then (Returned (),
                   w1\<lparr>trace := trace w1 @
                     [Log (lit ''No new video. The latest video is still: '' @ video.title v)]\<rparr>)
             else if NAME_MAX < utf8_length (getLatestTitleFileName channelUrl)
             then (Thrown (ENAMETOOLONG (getLatestTitleFileName channelUrl)),
                   w1\<lparr>trace := trace w1 @ [Log (lit ''New video detected: '' @ video.title v)]\<rparr>)
             else case writeFileSync r of
               Inl (err, left) \<Rightarrow>
                 (Thrown err,
                  w1\<lparr>files := (case left of
                                None \<Rightarrow> files w
                              | Some contents \<Rightarrow>
                                  (files w)(getLatestTitleFileName channelUrl \<mapsto> contents)),
                     trace := trace w1 @ [Log (lit ''New video detected: '' @ video.title v)]\<rparr>)
             | Inr _ \<Rightarrow>
                 (Returned (),
                   w1\<lparr>files := (files w)(getLatestTitleFileName channelUrl \<mapsto> toWellFormed (video.title v)),
                      trace := trace w1 @
                     [Log (lit ''New video detected: '' @ video.title v),
                      WriteFile (getLatestTitleFileName channelUrl) (video.title v),
                      Post (lit ''https://api.pushover.net/1/messages.json'')
                        (pushoverPayload_of p v channelUrl),
                      Log (case post r of
                             Inr _ \<Rightarrow> lit ''Pushover notification sent successfully!''
                           | Inl err \<Rightarrow> lit ''Failed to send Pushover notification: '' @
                               (case error.response err of
                                  Some data \<Rightarrow> data | None \<Rightarrow> error.message err)),
                      Log (lit ''Update complete.'')]\<rparr>))"
  by (simp add: checkForNewVideo_def bind_io_def logWithTimestamp_def emit_def
      getLatestVideo_eq sendPushoverNotification_eq writeLastTitle_def Let_def
      split: completion.splits option.splits sum.splits prod.splits)

lemma posts_fetch_events: "posts (fetch_events p r channelUrl) = []"
  by (rule posts_local) (rule fetch_events_local)

lemma writes_fetch_events: "writes (fetch_events p r channelUrl) = []"
  by (rule writes_local) (rule fetch_events_local)

lemmas step_simps =
  checkForNewVideo_eq Let_def new_events_def posts_append writes_append
  posts_fetch_events writes_fetch_events

lemma fetched_resolving:
  "fetched p (resolving textContent href) channelUrl =
     Returned (Some \<lparr>video.title = trim textContent, link = href\<rparr>)"
  by (simp add: fetched_def getLatestVideo_def resolving_def bind_io_def try_catch_def
      await_def logWithTimestamp_def emit_def ret_def)

section \<open>The file name\<close>

lemma utf8_length_fileName:
  "utf8_length (getLatestTitleFileName channelUrl) = length channelUrl + 17"
proof -
  have eq: "getLatestTitleFileName channelUrl = fileName_spec channelUrl"
    by (simp add: getLatestTitleFileName_def fileName_spec_def toLowerCase_def lowercased_def
        lit_underscore replace_g_single not_a_z_0_9_i_iff)
  have "utf8_length (fileName_spec channelUrl) = length (fileName_spec channelUrl)"
    by (rule utf8_length_ascii) (simp add: fileName_spec_ascii)
  with eq show ?thesis by (simp add: length_fileName_spec)
qed

lemma write_returns_iff:
  "write_returns r channelUrl \<longleftrightarrow> length channelUrl \<le> 238 \<and> writeFileSync r = Inr ()"
  by (auto simp: write_returns_def utf8_length_fileName NAME_MAX_def)

lemma length_long_url: "length long_url = 239"
  by (simp add: long_url_def lit_def)

lemma writeFileSync_resolving: "writeFileSync (resolving textContent href) = Inr ()"
  by (simp add: resolving_def)

lemma short_name: "\<not> NAME_MAX < utf8_length (getLatestTitleFileName (lit ''y''))"
  by (simp add: utf8_length_fileName NAME_MAX_def lit_def)

lemma write_returns_resolving:
  "write_returns (resolving textContent href) channelUrl \<longleftrightarrow> length channelUrl \<le> 238"
  by (simp add: write_returns_iff resolving_def)

text \<open>
  C5: for every channel URL, the name of the file of the persisted title is a function of
  the URL alone: every code unit that is not an ASCII letter or digit is replaced by an
  underscore, the result is lower-cased, and \<open>_latest_title.txt\<close> is appended.
\<close>

theorem getLatestTitleFileName_spec:
  "getLatestTitleFileName channelUrl = fileName_spec channelUrl"
  by (simp add: getLatestTitleFileName_def fileName_spec_def toLowerCase_def lowercased_def
      lit_underscore replace_g_single not_a_z_0_9_i_iff)

text \<open>The file of a channel page.\<close>

theorem getLatestTitleFileName_example:
  "getLatestTitleFileName (lit ''https://www.youtube.com/@Foo9'')
     = lit ''https___www_youtube_com__foo9_latest_title.txt''"
  by (simp add: getLatestTitleFileName_spec fileName_spec_def lowercased_def
      isAsciiLetterOrDigit_def lit_def)

section \<open>Notification and persistence\<close>

text \<open>
  C1, as amended: for a channel on which the fetch returns a video: when the fetched
  title equals the title read from the channel's file, nothing is posted and nothing is
  written. When the write of the title returns (the name of the file is at most 255
  bytes long, that is the URL at most 238 code units, and the file system accepts the
  write), a notification is posted and the persisted title is overwritten if and only if
  the fetched title differs, as a string, from the title read from the file. When the
  title differs and the write throws, nothing is posted, no write is completed, and the
  exception leaves \<open>checkForNewVideo\<close>.
\<close>

theorem notify_iff_title_differs:
  fixes p r channelUrl w v
  defines "after \<equiv> snd (checkForNewVideo p r channelUrl w)"
    and "stored \<equiv> readLastTitle (getLatestTitleFileName channelUrl) w"
  assumes "fetched p r channelUrl = Returned (Some v)"
  shows "(stored = Some (video.title v)
          \<longrightarrow> posts (new_events w after) = [] \<and> writes (new_events w after) = []
            \<and> files after = files w)
    \<and> (write_returns r channelUrl
          \<longrightarrow> (posts (new_events w after) \<noteq> [] \<longleftrightarrow> stored \<noteq> Some (video.title v))
            \<and> (writes (new_events w after) \<noteq> [] \<longleftrightarrow> stored \<noteq> Some (video.title v))
            \<and> (stored \<noteq> Some (video.title v)
                \<longrightarrow> posts (new_events w after) =
                      [(lit ''https://api.pushover.net/1/messages.json'',
                        pushoverPayload_of p v channelUrl)]
                  \<and> writes (new_events w after) =
                      [(getLatestTitleFileName channelUrl, video.title v)]
                  \<and> files after =
                      (files w)(getLatestTitleFileName channelUrl \<mapsto>
                                  toWellFormed (video.title v))))
    \<and> (stored \<noteq> Some (video.title v) \<and> \<not> write_returns r channelUrl
          \<longrightarrow> posts (new_events w after) = [] \<and> writes (new_events w after) = []
            \<and> (\<exists>e. fst (checkForNewVideo p r channelUrl w) = Thrown e))"
  unfolding after_def stored_def using assms(3)
  by (auto simp: step_simps write_returns_def split: sum.splits)

text \<open>
  With no file yet, the first title fetched is posted; with the same title in the file,
  nothing is posted; with a file name that is too long, the step throws.
\<close>

theorem notify_iff_title_differs_witness:
  "posts (new_events nowhere
     (snd (checkForNewVideo demo_process (resolving (lit '' T'') (lit ''L'')) (lit ''y'') nowhere)))
   = [(lit ''https://api.pushover.net/1/messages.json'',
       pushoverPayload_of demo_process \<lparr>video.title = lit ''T'', link = lit ''L''\<rparr> (lit ''y''))]
   \<and> posts (new_events \<lparr>files = [getLatestTitleFileName (lit ''y'') \<mapsto> lit ''T''], trace = []\<rparr>
     (snd (checkForNewVideo demo_process (resolving (lit '' T'') (lit ''L'')) (lit ''y'')
        \<lparr>files = [getLatestTitleFileName (lit ''y'') \<mapsto> lit ''T''], trace = []\<rparr>)))
     = []
   \<and> (\<exists>e. fst (checkForNewVideo demo_process (resolving (lit '' T'') (lit ''L'')) long_url nowhere)
          = Thrown e)"
proof -
  let ?r = "resolving (lit '' T'') (lit ''L'')"
  let ?w = "\<lparr>files = [getLatestTitleFileName (lit ''y'') \<mapsto> lit ''T''], trace = []\<rparr>"
  have t: "trim (lit '' T'') = lit ''T''"
    by (simp add: trim_def lit_def isWhiteSpace_def)
  have t': "trim (lit ''T'') = lit ''T''"
    by (simp add: trim_def lit_def isWhiteSpace_def)
  have ne: "lit ''T'' \<noteq> []" by (simp add: lit_def)
  have f: "fetched demo_process ?r (lit ''y'')
             = Returned (Some \<lparr>video.title = lit ''T'', link = lit ''L''\<rparr>)"
    by (simp add: fetched_resolving t)
  have f': "fetched demo_process ?r long_url
             = Returned (Some \<lparr>video.title = lit ''T'', link = lit ''L''\<rparr>)"
    by (simp add: fetched_resolving t)
  have s: "readLastTitle (getLatestTitleFileName (lit ''y'')) nowhere = None"
    by (simp add: readLastTitle_def nowhere_def)
  have s': "readLastTitle (getLatestTitleFileName (lit ''y'')) ?w = Some (lit ''T'')"
    by (simp add: readLastTitle_def t' ne)
  have s'': "readLastTitle (getLatestTitleFileName long_url) nowhere = None"
    by (simp add: readLastTitle_def nowhere_def)
  have wr: "write_returns ?r (lit ''y'')"
    by (simp add: write_returns_resolving lit_def)
  have nwr: "\<not> write_returns ?r long_url"
    by (simp add: write_returns_resolving length_long_url)
  from notify_iff_title_differs[OF f, of nowhere] s wr
  have 1: "posts (new_events nowhere (snd (checkForNewVideo demo_process ?r (lit ''y'') nowhere)))
   = [(lit ''https://api.pushover.net/1/messages.json'',
       pushoverPayload_of demo_process \<lparr>video.title = lit ''T'', link = lit ''L''\<rparr> (lit ''y''))]"
    by simp
  from notify_iff_title_differs[OF f, of ?w] s'
  have 2: "posts (new_events ?w (snd (checkForNewVideo demo_process ?r (lit ''y'') ?w))) = []"
    by simp
  from notify_iff_title_differs[OF f', of nowhere] s'' nwr
  have 3: "\<exists>e. fst (checkForNewVideo demo_process ?r long_url nowhere) = Thrown e"
    by simp
  from 1 2 3 show ?thesis by simp
qed

text \<open>
  A channel whose URL has 239 code units: the title differs from the stored one, the
  name of the file has 256 bytes, the write throws, and nothing is posted.
\<close>

theorem notify_iff_title_differs_counterexample:
  "fetched demo_process (resolving (lit ''T'') (lit ''L'')) long_url
     = Returned (Some \<lparr>video.title = lit ''T'', link = lit ''L''\<rparr>)
   \<and> readLastTitle (getLatestTitleFileName long_url) nowhere \<noteq> Some (lit ''T'')
   \<and> posts (new_events nowhere
        (snd (checkForNewVideo demo_process (resolving (lit ''T'') (lit ''L'')) long_url nowhere)))
      = []
   \<and> writes (new_events nowhere
        (snd (checkForNewVideo demo_process (resolving (lit ''T'') (lit ''L'')) long_url nowhere)))
      = []"
proof -
  have t: "trim (lit ''T'') = lit ''T''"
    by (simp add: trim_def lit_def isWhiteSpace_def)
  have s: "readLastTitle (getLatestTitleFileName long_url) nowhere = None"
    by (simp add: readLastTitle_def nowhere_def)
  show ?thesis
    by (simp add: step_simps fetched_resolving t s utf8_length_fileName length_long_url
        NAME_MAX_def)
qed

lemma fetched_post_update: "fetched p (r\<lparr>post := x\<rparr>) channelUrl = fetched p r channelUrl"
  by (simp add: fetched_def getLatestVideo_def cong: if_cong sum.case_cong)

lemma fetch_events_post_update:
  "fetch_events p (r\<lparr>post := x\<rparr>) channelUrl = fetch_events p r channelUrl"
  by (simp add: fetch_events_def getLatestVideo_def cong: if_cong sum.case_cong)

lemma fetch_events_resolving:
  "fetch_events p (resolving textContent href) channelUrl =
     [Log (lit ''Navigating to channel page: '' @ channelUrl)]"
  by (simp add: fetch_events_def getLatestVideo_def resolving_def bind_io_def try_catch_def
      await_def logWithTimestamp_def emit_def ret_def nowhere_def)

lemma readLastTitle_Some:
  "readLastTitle filename w = Some t \<Longrightarrow> t \<noteq> [] \<and> trim t = t"
  by (auto simp: readLastTitle_def Let_def trim_trim split: option.splits if_splits)

text \<open>
  C2, as amended: on a detected change of title, when the write of the title returns, the
  new title is written to the channel's file before the notification is posted; the
  post is made once, whether it succeeds or fails; a failure is logged, and the file
  keeps the new title. When the write throws, the exception leaves
  \<open>checkForNewVideo\<close>: nothing is posted and no write is completed.
  \<open>sendPushoverNotification\<close> always returns: it never throws to its caller, and it
  leaves the files alone.
\<close>

theorem persist_then_notify:
  assumes "fetched p r channelUrl = Returned (Some v)"
    and "readLastTitle (getLatestTitleFileName channelUrl) w \<noteq> Some (video.title v)"
  shows "(write_returns r channelUrl \<longrightarrow>
      checkForNewVideo p r channelUrl w =
      (Returned (),
       w\<lparr>files := (files w)(getLatestTitleFileName channelUrl \<mapsto> toWellFormed (video.title v)),
         trace := trace w @
           Log (lit ''Checking for new video on: '' @ channelUrl) # fetch_events p r channelUrl @
           [Log (lit ''New video detected: '' @ video.title v),
            WriteFile (getLatestTitleFileName channelUrl) (video.title v),
            Post (lit ''https://api.pushover.net/1/messages.json'')
              (pushoverPayload_of p v channelUrl),
            Log (case post r of
                   Inr _ \<Rightarrow> lit ''Pushover notification sent successfully!''
                 | Inl err \<Rightarrow> lit ''Failed to send Pushover notification: '' @
                     (case error.response err of
                        Some data \<Rightarrow> data | None \<Rightarrow> error.message err)),
            Log (lit ''Update complete.'')]\<rparr>))
    \<and> (\<not> write_returns r channelUrl \<longrightarrow>
         (\<exists>e. fst (checkForNewVideo p r channelUrl w) = Thrown e)
         \<and> posts (new_events w (snd (checkForNewVideo p r channelUrl w))) = []
         \<and> writes (new_events w (snd (checkForNewVideo p r channelUrl w))) = [])
    \<and> writes (fetch_events p r channelUrl) = []
    \<and> posts (fetch_events p r channelUrl) = []
    \<and> fst (sendPushoverNotification p' r' v' channelUrl' w') = Returned ()
    \<and> files (snd (sendPushoverNotification p' r' v' channelUrl' w')) = files w'
    \<and> length (posts (new_events w' (snd (sendPushoverNotification p' r' v' channelUrl' w')))) = 1"
  using assms
  by (auto simp: step_simps write_returns_def sendPushoverNotification_eq split: sum.splits)

text \<open>A post that fails: the title is in the file, the failure is in the log.\<close>

theorem persist_then_notify_witness:
  "checkForNewVideo demo_process
     ((resolving (lit ''T'') (lit ''L''))\<lparr>post := Inl \<lparr>error.message = lit ''x'', response = None\<rparr>\<rparr>)
     (lit ''y'') nowhere =
   (Returned (),
    \<lparr>files = [lit ''y_latest_title.txt'' \<mapsto> lit ''T''],
     trace =
       [Log (lit ''Checking for new video on: y''),
        Log (lit ''Navigating to channel page: y''),
        Log (lit ''New video detected: T''),
        WriteFile (lit ''y_latest_title.txt'') (lit ''T''),
        Post (lit ''https://api.pushover.net/1/messages.json'')
          (pushoverPayload_of demo_process \<lparr>video.title = lit ''T'', link = lit ''L''\<rparr> (lit ''y'')),
        Log (lit ''Failed to send Pushover notification: x''),
        Log (lit ''Update complete.'')]\<rparr>)"
proof -
  let ?r = "(resolving (lit ''T'') (lit ''L''))\<lparr>post := Inl \<lparr>error.message = lit ''x'', response = None\<rparr>\<rparr>"
  have t: "trim (lit ''T'') = lit ''T''"
    by (simp add: trim_def lit_def isWhiteSpace_def)
  have f: "fetched demo_process ?r (lit ''y'')
             = Returned (Some \<lparr>video.title = lit ''T'', link = lit ''L''\<rparr>)"
    by (simp add: fetched_post_update fetched_resolving t)
  have s: "readLastTitle (getLatestTitleFileName (lit ''y'')) nowhere
             \<noteq> Some (video.title \<lparr>video.title = lit ''T'', link = lit ''L''\<rparr>)"
    by (simp add: readLastTitle_def nowhere_def)
  have n: "getLatestTitleFileName (lit ''y'') = lit ''y_latest_title.txt''"
    by (simp add: getLatestTitleFileName_def toLowerCase_def not_a_z_0_9_i_def
        canonicalize_def lit_def)
  have w: "toWellFormed (lit ''T'') = lit ''T''"
    by (simp add: lit_def isLeadSurrogate_def isTrailSurrogate_def)
  have wr: "write_returns ?r (lit ''y'')"
    by (simp add: write_returns_iff resolving_def lit_def)
  have "post ?r = Inl \<lparr>error.message = lit ''x'', response = None\<rparr>" by simp
  with persist_then_notify[OF f s] wr show ?thesis
    by (simp add: fetch_events_post_update fetch_events_resolving n w nowhere_def)
       (simp add: lit_def)
qed

text \<open>
  A channel whose URL has 239 code units: the title has changed, the write throws
  \<open>ENAMETOOLONG\<close>, the file is not there and the step ends with the exception.
\<close>

theorem persist_then_notify_counterexample:
  "fetched demo_process (resolving (lit ''T'') (lit ''L'')) long_url
     = Returned (Some \<lparr>video.title = lit ''T'', link = lit ''L''\<rparr>)
   \<and> readLastTitle (getLatestTitleFileName long_url) nowhere \<noteq> Some (lit ''T'')
   \<and> fst (checkForNewVideo demo_process (resolving (lit ''T'') (lit ''L'')) long_url nowhere)
      = Thrown (ENAMETOOLONG (getLatestTitleFileName long_url))
   \<and> files (snd (checkForNewVideo demo_process (resolving (lit ''T'') (lit ''L'')) long_url nowhere))
        (getLatestTitleFileName long_url) = None"
proof -
  have t: "trim (lit ''T'') = lit ''T''"
    by (simp add: trim_def lit_def isWhiteSpace_def)
  have s: "readLastTitle (getLatestTitleFileName long_url) nowhere = None"
    by (simp add: readLastTitle_def nowhere_def)
  show ?thesis
    by (simp add: step_simps fetched_resolving t s utf8_length_fileName length_long_url
        NAME_MAX_def)
       (simp add: nowhere_def)
qed

text \<open>
  C7: a notification carries the data of the new video: the message ends with the fetched
  title, the \<open>url\<close> field is the fetched link, the other fields are constants or the
  credentials of the process, and the post goes to the one fixed endpoint. Every post of
  a poll step is of this form, for the video that the fetch returned.
\<close>

theorem notification_payload:
  "posts (new_events w (snd (sendPushoverNotification p r v channelUrl w))) =
     [(lit ''https://api.pushover.net/1/messages.json'', pushoverPayload_of p v channelUrl)]
   \<and> url (pushoverPayload_of p v channelUrl) = link v
   \<and> pushoverPayload.message (pushoverPayload_of p v channelUrl) =
       lit ''New video on '' @ channelName_of channelUrl @ lit '': '' @ video.title v
   \<and> token (pushoverPayload_of p v channelUrl) = PUSHOVER_API_TOKEN p
   \<and> user (pushoverPayload_of p v channelUrl) = PUSHOVER_USER_KEY p
   \<and> pushoverPayload.title (pushoverPayload_of p v channelUrl) = lit ''New YouTube Video''
   \<and> url_title (pushoverPayload_of p v channelUrl) = lit ''Watch Video''
   \<and> priority (pushoverPayload_of p v channelUrl) = 2
   \<and> sound (pushoverPayload_of p v channelUrl) = lit ''siren''
   \<and> retry (pushoverPayload_of p v channelUrl) = 30
   \<and> expire (pushoverPayload_of p v channelUrl) = 3600
   \<and> (\<forall>sent \<in> set (posts (new_events w (snd (checkForNewVideo p r channelUrl w)))).
         \<exists>fetched_video. fetched p r channelUrl = Returned (Some fetched_video)
           \<and> sent = (lit ''https://api.pushover.net/1/messages.json'',
                      pushoverPayload_of p fetched_video channelUrl))"
  by (simp add: sendPushoverNotification_eq new_events_def pushoverPayload_of_def step_simps
      split: completion.splits option.splits sum.splits prod.splits)

text \<open>The post of the first poll of a channel.\<close>

theorem notification_payload_witness:
  "\<exists>fetched_video.
     fetched demo_process (resolving (lit ''T'') (lit ''L'')) (lit ''y'') = Returned (Some fetched_video)
     \<and> (lit ''https://api.pushover.net/1/messages.json'',
         pushoverPayload_of demo_process \<lparr>video.title = lit ''T'', link = lit ''L''\<rparr> (lit ''y''))
       = (lit ''https://api.pushover.net/1/messages.json'',
          pushoverPayload_of demo_process fetched_video (lit ''y''))"
proof -
  let ?r = "resolving (lit ''T'') (lit ''L'')"
  let ?sent = "(lit ''https://api.pushover.net/1/messages.json'',
         pushoverPayload_of demo_process \<lparr>video.title = lit ''T'', link = lit ''L''\<rparr> (lit ''y''))"
  have t: "trim (lit ''T'') = lit ''T''"
    by (simp add: trim_def lit_def isWhiteSpace_def)
  have s: "readLastTitle (getLatestTitleFileName (lit ''y'')) nowhere = None"
    by (simp add: readLastTitle_def nowhere_def)
  have "posts (new_events nowhere (snd (checkForNewVideo demo_process ?r (lit ''y'') nowhere)))
          = [?sent]"
    by (simp add: step_simps fetched_resolving t s writeFileSync_resolving short_name)
  then have "?sent \<in> set (posts (new_events nowhere
               (snd (checkForNewVideo demo_process ?r (lit ''y'') nowhere))))"
    by simp
  with notification_payload[of nowhere demo_process ?r _ "lit ''y''"] show ?thesis
    by blast
qed

lemma fetched_not_found:
  "fetched p ((resolving textContent href)\<lparr>querySelector := Inr None\<rparr>) channelUrl = Returned None"
  by (simp add: fetched_def getLatestVideo_def resolving_def bind_io_def try_catch_def
      await_def logWithTimestamp_def emit_def ret_def)

text \<open>
  C8: when the fetch finds no video, or the fetched title equals the stored one, the poll
  step leaves every file as it is, writes nothing and posts nothing; a file is written,
  or the files differ afterwards, only when a video was fetched whose title differs from
  the stored one.
\<close>

theorem poll_step_frame:
  fixes p r channelUrl w
  defines "after \<equiv> snd (checkForNewVideo p r channelUrl w)"
    and "stored \<equiv> readLastTitle (getLatestTitleFileName channelUrl) w"
  shows "(fetched p r channelUrl = Returned None
          \<or> (\<exists>v. fetched p r channelUrl = Returned (Some v) \<and> stored = Some (video.title v))
         \<longrightarrow> files after = files w
           \<and> writes (new_events w after) = [] \<and> posts (new_events w after) = [])
    \<and> (files after \<noteq> files w \<or> writes (new_events w after) \<noteq> []
         \<longrightarrow> (\<exists>v. fetched p r channelUrl = Returned (Some v) \<and> stored \<noteq> Some (video.title v)))"
  unfolding after_def stored_def
  by (auto simp: step_simps split: completion.splits option.splits if_splits)

text \<open>A page without a video link.\<close>

theorem poll_step_frame_witness:
  "files (snd (checkForNewVideo demo_process
       ((resolving (lit ''T'') (lit ''L''))\<lparr>querySelector := Inr None\<rparr>) (lit ''y'') nowhere))
     = files nowhere
   \<and> writes (new_events nowhere (snd (checkForNewVideo demo_process
       ((resolving (lit ''T'') (lit ''L''))\<lparr>querySelector := Inr None\<rparr>) (lit ''y'') nowhere))) = []
   \<and> posts (new_events nowhere (snd (checkForNewVideo demo_process
       ((resolving (lit ''T'') (lit ''L''))\<lparr>querySelector := Inr None\<rparr>) (lit ''y'') nowhere))) = []"
  using poll_step_frame[of demo_process
      "(resolving (lit ''T'') (lit ''L''))\<lparr>querySelector := Inr None\<rparr>" "lit ''y''" nowhere]
    fetched_not_found[of demo_process "lit ''T''" "lit ''L''" "lit ''y''"]
  by blast

section \<open>The persisted title\<close>

text \<open>Every title that the fetch returns is trimmed.\<close>

lemma fetched_title_trimmed:
  assumes "fetched p r channelUrl = Returned (Some v)"
  shows "trim (video.title v) = video.title v"
  using assms
  by (auto simp: fetched_def getLatestVideo_def bind_io_def try_catch_def await_def
      logWithTimestamp_def emit_def ret_def restartScript_def exit_process_def trim_trim
      split: sum.splits option.splits if_splits prod.splits)

text \<open>
  C10, as amended: \<open>readLastTitle\<close> returns \<open>null\<close> exactly when the file does not exist
  or its contents trim to the empty string. So a title that is empty or white space only
  reads back as \<open>null\<close> after a write of it that returned, and never equals the stored
  title; in every world, hence on every poll cycle, in which the write returns, the step
  writes it and posts a notification again.
\<close>

theorem empty_title_retriggers:
  fixes p r channelUrl w v
  defines "after \<equiv> snd (checkForNewVideo p r channelUrl w)"
  shows "(readLastTitle filename w = None
           \<longleftrightarrow> files w filename = None
             \<or> (\<exists>contents. files w filename = Some contents \<and> trim contents = []))
    \<and> (trim t = [] \<and> utf8_length filename \<le> NAME_MAX
         \<longrightarrow> readLastTitle filename (snd (writeLastTitle t filename (Inr ()) w)) = None)
    \<and> (fetched p r channelUrl = Returned (Some v) \<and> trim (video.title v) = []
         \<longrightarrow> readLastTitle (getLatestTitleFileName channelUrl) w \<noteq> Some (video.title v)
           \<and> (write_returns r channelUrl
               \<longrightarrow> writes (new_events w after) =
                     [(getLatestTitleFileName channelUrl, video.title v)]
                 \<and> posts (new_events w after) =
                     [(lit ''https://api.pushover.net/1/messages.json'',
                       pushoverPayload_of p v channelUrl)]
                 \<and> readLastTitle (getLatestTitleFileName channelUrl) after = None))"
proof (intro conjI impI)
  show "readLastTitle filename w = None
           \<longleftrightarrow> files w filename = None
             \<or> (\<exists>contents. files w filename = Some contents \<and> trim contents = [])"
    by (auto simp: readLastTitle_def Let_def split: option.splits)
next
  assume a: "trim t = [] \<and> utf8_length filename \<le> NAME_MAX"
  then have "\<forall>c \<in> set t. isWhiteSpace c" by (simp add: trim_empty_iff)
  then have "toWellFormed t = t" by (rule toWellFormed_whiteSpace)
  with a show "readLastTitle filename (snd (writeLastTitle t filename (Inr ()) w)) = None"
    by (simp add: readLastTitle_writeLastTitle)
next
  assume a: "fetched p r channelUrl = Returned (Some v) \<and> trim (video.title v) = []"
  show ne: "readLastTitle (getLatestTitleFileName channelUrl) w \<noteq> Some (video.title v)"
  proof
    assume "readLastTitle (getLatestTitleFileName channelUrl) w = Some (video.title v)"
    then have "video.title v \<noteq> [] \<and> trim (video.title v) = video.title v"
      by (rule readLastTitle_Some)
    with a show False by simp
  qed
  assume wr: "write_returns r channelUrl"
  from a have "\<forall>c \<in> set (video.title v). isWhiteSpace c" by (simp add: trim_empty_iff)
  then have wf: "toWellFormed (video.title v) = video.title v" by (rule toWellFormed_whiteSpace)
  from a ne wr show "writes (new_events w after) = [(getLatestTitleFileName channelUrl, video.title v)]"
    unfolding after_def by (simp add: step_simps write_returns_def)
  from a ne wr show "posts (new_events w after) =
               [(lit ''https://api.pushover.net/1/messages.json'',
                 pushoverPayload_of p v channelUrl)]"
    unfolding after_def by (simp add: step_simps write_returns_def)
  from a ne wr wf show "readLastTitle (getLatestTitleFileName channelUrl) after = None"
    unfolding after_def by (simp add: step_simps write_returns_def) (simp add: readLastTitle_def)
qed

text \<open>A video link whose text is one space, and a write of one space.\<close>

theorem empty_title_retriggers_witness:
  "posts (new_events nowhere
     (snd (checkForNewVideo demo_process (resolving (lit '' '') (lit ''L'')) (lit ''y'') nowhere)))
   = [(lit ''https://api.pushover.net/1/messages.json'',
       pushoverPayload_of demo_process \<lparr>video.title = [], link = lit ''L''\<rparr> (lit ''y''))]
   \<and> readLastTitle (getLatestTitleFileName (lit ''y''))
       (snd (checkForNewVideo demo_process (resolving (lit '' '') (lit ''L'')) (lit ''y'') nowhere))
     = None
   \<and> readLastTitle (lit ''f'') (snd (writeLastTitle (lit '' '') (lit ''f'') (Inr ()) nowhere))
     = None"
proof -
  have t: "trim (lit '' '') = []"
    by (simp add: trim_def lit_def isWhiteSpace_def)
  have f: "fetched demo_process (resolving (lit '' '') (lit ''L'')) (lit ''y'')
             = Returned (Some \<lparr>video.title = [], link = lit ''L''\<rparr>)"
    by (simp add: fetched_resolving t)
  have e: "trim (video.title \<lparr>video.title = [], link = lit ''L''\<rparr>) = []"
    by (simp add: trim_def)
  have wr: "write_returns (resolving (lit '' '') (lit ''L'')) (lit ''y'')"
    by (simp add: write_returns_resolving lit_def)
  have n: "utf8_length (lit ''f'') \<le> NAME_MAX"
    by (simp add: lit_def utf8_units_def NAME_MAX_def)
  from empty_title_retriggers[of "lit ''f''" nowhere "lit '' ''" demo_process
      "resolving (lit '' '') (lit ''L'')" "lit ''y''" "\<lparr>video.title = [], link = lit ''L''\<rparr>"]
    f e wr t n
  show ?thesis by simp
qed

text \<open>
  A video link whose text is one space, on a channel whose URL has 239 code units: the
  write throws and the empty title is neither persisted nor notified.
\<close>

theorem empty_title_retriggers_counterexample:
  "fetched demo_process (resolving (lit '' '') (lit ''L'')) long_url
     = Returned (Some \<lparr>video.title = [], link = lit ''L''\<rparr>)
   \<and> posts (new_events nowhere
        (snd (checkForNewVideo demo_process (resolving (lit '' '') (lit ''L'')) long_url nowhere)))
      = []
   \<and> writes (new_events nowhere
        (snd (checkForNewVideo demo_process (resolving (lit '' '') (lit ''L'')) long_url nowhere)))
      = []
   \<and> files (snd (checkForNewVideo demo_process (resolving (lit '' '') (lit ''L'')) long_url nowhere))
      = files nowhere"
proof -
  have t: "trim (lit '' '') = []"
    by (simp add: trim_def lit_def isWhiteSpace_def)
  have s: "readLastTitle (getLatestTitleFileName long_url) nowhere = None"
    by (simp add: readLastTitle_def nowhere_def)
  show ?thesis
    by (simp add: step_simps fetched_resolving t s utf8_length_fileName length_long_url
        NAME_MAX_def)
qed

text \<open>
  C4, as amended: when the name of the file is at most 255 bytes long and the file system
  accepts the write, \<open>writeLastTitle\<close> returns, and \<open>readLastTitle\<close> on the same file
  right afterwards returns \<open>null\<close> if the written title, with every lone surrogate
  replaced by U+FFFD, trims to the empty string, and returns that trimmed text
  otherwise. So it returns exactly the written title if and only if the title is not
  empty, has no white space at either end and holds no lone surrogate.
\<close>

theorem read_after_write_iff:
  assumes "utf8_length filename \<le> NAME_MAX"
  shows "fst (writeLastTitle t filename (Inr ()) w) = Returned ()
    \<and> readLastTitle filename (snd (writeLastTitle t filename (Inr ()) w)) =
        (if trim (toWellFormed t) = [] then None else Some (trim (toWellFormed t)))
    \<and> (readLastTitle filename (snd (writeLastTitle t filename (Inr ()) w)) = Some t
        \<longleftrightarrow> t \<noteq> [] \<and> trim t = t \<and> toWellFormed t = t)"
proof (intro conjI)
  from assms show "fst (writeLastTitle t filename (Inr ()) w) = Returned ()"
    by (simp add: writeLastTitle_def)
  from assms show r: "readLastTitle filename (snd (writeLastTitle t filename (Inr ()) w)) =
        (if trim (toWellFormed t) = [] then None else Some (trim (toWellFormed t)))"
    by (rule readLastTitle_writeLastTitle)
  show "readLastTitle filename (snd (writeLastTitle t filename (Inr ()) w)) = Some t
        \<longleftrightarrow> t \<noteq> [] \<and> trim t = t \<and> toWellFormed t = t"
  proof
    assume "readLastTitle filename (snd (writeLastTitle t filename (Inr ()) w)) = Some t"
    with r have ne: "t \<noteq> []" and tr: "trim (toWellFormed t) = t"
      by (auto split: if_splits)
    from tr have "length (trim (toWellFormed t)) = length (toWellFormed t)"
      by (simp add: length_toWellFormed)
    then have "trim (toWellFormed t) = toWellFormed t" by (rule trim_length_eq)
    with tr have "toWellFormed t = t" by simp
    with tr ne show "t \<noteq> [] \<and> trim t = t \<and> toWellFormed t = t" by simp
  next
    assume "t \<noteq> [] \<and> trim t = t \<and> toWellFormed t = t"
    with r show "readLastTitle filename (snd (writeLastTitle t filename (Inr ()) w)) = Some t"
      by simp
  qed
qed

text \<open>An ordinary title is read back as written; a blank one is read back as \<open>null\<close>.\<close>

theorem read_after_write_witness:
  "readLastTitle (lit ''f'') (snd (writeLastTitle (lit ''T'') (lit ''f'') (Inr ()) nowhere))
     = Some (lit ''T'')
   \<and> readLastTitle (lit ''f'') (snd (writeLastTitle (lit '' '') (lit ''f'') (Inr ()) nowhere))
     = None"
proof -
  have n: "utf8_length (lit ''f'') \<le> NAME_MAX"
    by (simp add: lit_def utf8_units_def NAME_MAX_def)
  have 1: "trim (toWellFormed (lit ''T'')) = lit ''T''"
    by (simp add: trim_def lit_def isWhiteSpace_def isLeadSurrogate_def isTrailSurrogate_def)
  have 2: "trim (toWellFormed (lit '' '')) = []"
    by (simp add: trim_def lit_def isWhiteSpace_def isLeadSurrogate_def isTrailSurrogate_def)
  have 3: "lit ''T'' \<noteq> []" by (simp add: lit_def)
  from read_after_write_iff[OF n, of "lit ''T''" nowhere]
    read_after_write_iff[OF n, of "lit '' ''" nowhere] 1 2 3
  show ?thesis by simp
qed

text \<open>
  The empty title is read back as \<open>null\<close>, a title with a leading space is read back
  without it, and a lone surrogate is read back as U+FFFD.
\<close>

theorem read_after_write_counterexample:
  "readLastTitle (lit ''f'') (snd (writeLastTitle [] (lit ''f'') (Inr ()) nowhere)) \<noteq> Some []
   \<and> readLastTitle (lit ''f'') (snd (writeLastTitle (lit '' T'') (lit ''f'') (Inr ()) nowhere))
       \<noteq> Some (lit '' T'')
   \<and> readLastTitle (lit ''f'') (snd (writeLastTitle [0xD800] (lit ''f'') (Inr ()) nowhere))
       \<noteq> Some [0xD800]"
  by (simp add: readLastTitle_def writeLastTitle_def trim_def lit_def isWhiteSpace_def
      isLeadSurrogate_def isTrailSurrogate_def utf8_units_def NAME_MAX_def)

section \<open>The channel list\<close>

lemma split_on_not_Nil: "split_on sep s \<noteq> []"
  by (induction s) (auto split: list.splits)

lemma join_with_split_on: "join_with sep (split_on sep s) = s"
proof (induction s)
  case Nil
  then show ?case by simp
next
  case (Cons c cs)
  obtain piece pieces where sp: "split_on sep cs = piece # pieces"
    using split_on_not_Nil[of sep cs] by (cases "split_on sep cs") auto
  with Cons show ?case by (cases pieces) auto
qed

lemma split_on_no_sep: "piece \<in> set (split_on sep s) \<Longrightarrow> sep \<notin> set piece"
proof (induction s arbitrary: piece)
  case Nil
  then show ?case by simp
next
  case (Cons c cs)
  then show ?case by (auto split: if_splits list.splits)
qed

lemma demo_channels: "YOUTUBE_CHANNEL_URLS demo_process = [lit ''y/@A'', lit ''y/@a'']"
  by (simp add: YOUTUBE_CHANNEL_URLS_def demo_process_def lit_def trim_def isWhiteSpace_def)

text \<open>
  C6, as amended: when the variable \<open>YOUTUBE_CHANNEL_URLS\<close> is unset or is the empty
  string, the channel list is empty and a poll cycle visits no channel: it only logs
  that it checks. Otherwise the list is the pieces of the value between its commas (the
  pieces hold no comma, and joined by commas they give the value back), each trimmed of
  the white space around it.
\<close>

theorem channel_list_from_env:
  "(env p (lit ''YOUTUBE_CHANNEL_URLS'') = None \<or> env p (lit ''YOUTUBE_CHANNEL_URLS'') = Some []
      \<longrightarrow> YOUTUBE_CHANNEL_URLS p = []
        \<and> checkForAllNewVideos p rs w =
            (Returned (), w\<lparr>trace := trace w @ [Log (lit ''Checking all configured channels...'')]\<rparr>))
   \<and> (env p (lit ''YOUTUBE_CHANNEL_URLS'') = Some s \<and> s \<noteq> []
      \<longrightarrow> YOUTUBE_CHANNEL_URLS p = map trim (split_on 0x2C s)
        \<and> join_with 0x2C (split_on 0x2C s) = s
        \<and> (\<forall>piece \<in> set (split_on 0x2C s). 0x2C \<notin> set piece)
        \<and> (\<forall>channelUrl \<in> set (YOUTUBE_CHANNEL_URLS p). trim channelUrl = channelUrl))"
  by (auto simp: YOUTUBE_CHANNEL_URLS_def checkForAllNewVideos_def bind_io_def
      logWithTimestamp_def emit_def ret_def join_with_split_on trim_trim
      dest: split_on_no_sep)

text \<open>A value with two channels, and a process without the variable.\<close>

theorem channel_list_from_env_witness:
  "YOUTUBE_CHANNEL_URLS demo_process = map trim (split_on 0x2C (lit ''y/@A, y/@a''))
   \<and> YOUTUBE_CHANNEL_URLS \<lparr>env = Map.empty, execPath = lit ''node'', args = []\<rparr> = []"
proof -
  have 1: "env demo_process (lit ''YOUTUBE_CHANNEL_URLS'') = Some (lit ''y/@A, y/@a'')
           \<and> lit ''y/@A, y/@a'' \<noteq> []"
    by (simp add: demo_process_def lit_def)
  have 2: "env \<lparr>env = Map.empty, execPath = lit ''node'', args = []\<rparr> (lit ''YOUTUBE_CHANNEL_URLS'') = None"
    by simp
  from channel_list_from_env[of demo_process _ _ "lit ''y/@A, y/@a''"] 1
  have a: "YOUTUBE_CHANNEL_URLS demo_process = map trim (split_on 0x2C (lit ''y/@A, y/@a''))"
    by blast
  from channel_list_from_env[of "\<lparr>env = Map.empty, execPath = lit ''node'', args = []\<rparr>"] 2
  have b: "YOUTUBE_CHANNEL_URLS \<lparr>env = Map.empty, execPath = lit ''node'', args = []\<rparr> = []"
    by blast
  from a b show ?thesis by simp
qed

text \<open>
  The variable set to the empty string: splitting and trimming would give one channel
  with the empty URL, the program has no channel.
\<close>

theorem channel_list_empty_variable:
  "YOUTUBE_CHANNEL_URLS \<lparr>env = [lit ''YOUTUBE_CHANNEL_URLS'' \<mapsto> []], execPath = lit ''node'', args = []\<rparr>
     \<noteq> map trim (split_on 0x2C [])"
  by (simp add: YOUTUBE_CHANNEL_URLS_def)

text \<open>
  C9: the file name is not an injective function of the URL. Two URLs that differ in the
  case of a letter, or in which character stands where neither a letter nor a digit
  does, have the same file; both URLs of the first pair are channels of one process.
\<close>

theorem file_name_not_injective:
  "lit ''y/@A'' \<noteq> lit ''y/@a''
   \<and> getLatestTitleFileName (lit ''y/@A'') = getLatestTitleFileName (lit ''y/@a'')
   \<and> lit ''y/a-b'' \<noteq> lit ''y/a.b''
   \<and> getLatestTitleFileName (lit ''y/a-b'') = getLatestTitleFileName (lit ''y/a.b'')
   \<and> \<not> inj getLatestTitleFileName
   \<and> YOUTUBE_CHANNEL_URLS demo_process = [lit ''y/@A'', lit ''y/@a'']"
proof -
  have ne: "lit ''y/@A'' \<noteq> lit ''y/@a''" "lit ''y/a-b'' \<noteq> lit ''y/a.b''"
    by (simp_all add: lit_def)
  have eq1: "getLatestTitleFileName (lit ''y/@A'') = getLatestTitleFileName (lit ''y/@a'')"
    by (simp add: getLatestTitleFileName_def toLowerCase_def not_a_z_0_9_i_def
        canonicalize_def lit_def)
  have eq2: "getLatestTitleFileName (lit ''y/a-b'') = getLatestTitleFileName (lit ''y/a.b'')"
    by (simp add: getLatestTitleFileName_def toLowerCase_def not_a_z_0_9_i_def
        canonicalize_def lit_def)
  from ne(1) eq1 have "\<not> inj getLatestTitleFileName"
    by (auto simp: inj_def)
  with ne eq1 eq2 demo_channels show ?thesis by simp
qed

section \<open>Failure of the fetch\<close>

lemma for_channels_stops:
  "fetched p (rs i) channelUrl = Exited \<or> fetched p (rs i) channelUrl = Thrown e \<Longrightarrow>
   for_channels p rs i (channelUrl # rest) w = checkForNewVideo p (rs i) channelUrl w"
  by (auto simp: bind_io_def checkForNewVideo_eq Let_def)

lemma restartScript_eq:
  "restartScript p w =
     (Exited, w\<lparr>trace := trace w @
        [Log (lit ''Restarting script due to error...''), Spawn (execPath p) (args p), Exit 1]\<rparr>)"
  by (simp add: restartScript_def bind_io_def logWithTimestamp_def emit_def exit_process_def)

lemma fetch_restarts_when_closing_succeeds:
  assumes "close_on_goto_error r = Inr ()" and "close_in_catch r = Inr ()"
  shows "(\<exists>latestVideo. fetched p r channelUrl = Returned latestVideo)
    \<or> (fetched p r channelUrl = Exited
       \<and> (\<exists>before. fetch_events p r channelUrl =
            before @ [Log (lit ''Restarting script due to error...''),
                      Spawn (execPath p) (args p), Exit 1]))"
  using assms
  by (auto simp: fetched_def fetch_events_def getLatestVideo_def bind_io_def try_catch_def
      await_def logWithTimestamp_def emit_def ret_def restartScript_eq nowhere_def
      split: sum.splits option.splits)

lemma fetch_throws_only_from_closing:
  assumes "fetched p r channelUrl = Thrown e"
  shows "close_in_catch r = Inl e"
  using assms
  by (auto simp: fetched_def getLatestVideo_def bind_io_def try_catch_def
      await_def logWithTimestamp_def emit_def ret_def restartScript_eq nowhere_def
      split: sum.splits option.splits if_splits)

lemma fetch_returns_iff:
  "fetched p r channelUrl = Returned latestVideo \<longleftrightarrow>
     launch r = Inr () \<and> newPage r = Inr () \<and> goto r = Inr () \<and> scrollBy r = Inr ()
     \<and> (accept_button r = Inr False \<or> (accept_button r = Inr True \<and> click r = Inr ()))
     \<and> (\<exists>element. querySelector r = Inr element
          \<and> latestVideo = map_option
               (\<lambda>(textContent, href). \<lparr>video.title = trim textContent, link = href\<rparr>) element)
     \<and> close r = Inr ()"
proof (cases "launch r")
  case (Inl e)
  then show ?thesis
    by (cases "close_in_catch r")
       (simp_all add: fetched_def getLatestVideo_def bind_io_def try_catch_def
      await_def logWithTimestamp_def emit_def ret_def restartScript_eq nowhere_def)
next
  case l: (Inr u)
  show ?thesis
  proof (cases "newPage r")
    case (Inl e)
    with l show ?thesis
      by (cases "close_in_catch r")
         (simp_all add: fetched_def getLatestVideo_def bind_io_def try_catch_def
      await_def logWithTimestamp_def emit_def ret_def restartScript_eq nowhere_def)
  next
    case n: (Inr u')
    show ?thesis
    proof (cases "goto r")
      case (Inl e)
      with l n show ?thesis
        by (cases "close_on_goto_error r"; cases "close_in_catch r")
           (simp_all add: fetched_def getLatestVideo_def bind_io_def try_catch_def
      await_def logWithTimestamp_def emit_def ret_def restartScript_eq nowhere_def)
    next
      case g: (Inr u'')
      show ?thesis
      proof (cases "scrollBy r")
        case (Inl e)
        with l n g show ?thesis
          by (cases "close_in_catch r")
             (simp_all add: fetched_def getLatestVideo_def bind_io_def try_catch_def
      await_def logWithTimestamp_def emit_def ret_def restartScript_eq nowhere_def)
      next
        case s: (Inr u''')
        with l n g show ?thesis
          by (cases "accept_button r"; cases "click r"; cases "querySelector r"; cases "close r";
              cases "close_in_catch r")
             (auto simp: fetched_def getLatestVideo_def bind_io_def try_catch_def
      await_def logWithTimestamp_def emit_def ret_def restartScript_eq nowhere_def
      split: option.splits)
      qed
    qed
  qed
qed

text \<open>
  C3: a failure of the fetch is meant to end the run by a restart: log, spawn a copy of
  the process, exit. That is what happens while \<open>browser.close()\<close> succeeds in the
  handlers (\<open>fetch_restarts_when_closing_succeeds\<close>). When the navigation fails and
  \<open>browser.close()\<close> rejects in both handlers, the rejection leaves
  \<open>getLatestVideo\<close>, \<open>checkForNewVideo\<close> and \<open>checkForAllNewVideos\<close> uncaught:
  the cycle stops at the first channel, but nothing is spawned and \<open>restartScript\<close>
  is never reached.
\<close>

theorem no_restart_when_closing_fails:
  "checkForAllNewVideos demo_process (\<lambda>i. closing_fails) nowhere =
     (Thrown \<lparr>error.message = lit ''closed'', response = None\<rparr>,
      \<lparr>files = Map.empty,
       trace = [Log (lit ''Checking all configured channels...''),
                Log (lit ''Checking for new video on: y/@A''),
                Log (lit ''Navigating to channel page: y/@A''),
                Log (lit ''Error navigating to y/@A: timeout'')]\<rparr>)"
proof -
  have f: "getLatestVideo demo_process closing_fails (lit ''y/@A'') nowhere =
      (Thrown \<lparr>error.message = lit ''closed'', response = None\<rparr>,
       \<lparr>files = Map.empty,
        trace = [Log (lit ''Navigating to channel page: y/@A''),
                 Log (lit ''Error navigating to y/@A: timeout'')]\<rparr>)"
    by (simp add: getLatestVideo_def closing_fails_def resolving_def bind_io_def try_catch_def
      await_def logWithTimestamp_def emit_def ret_def nowhere_def)
       (simp add: lit_def)
  then have "fetched demo_process closing_fails (lit ''y/@A'')
               = Thrown \<lparr>error.message = lit ''closed'', response = None\<rparr>"
    and "fetch_events demo_process closing_fails (lit ''y/@A'')
               = [Log (lit ''Navigating to channel page: y/@A''),
                  Log (lit ''Error navigating to y/@A: timeout'')]"
    by (simp_all add: fetched_def fetch_events_def)
  then show ?thesis
    by (simp add: checkForAllNewVideos_def demo_channels bind_io_def logWithTimestamp_def
        emit_def checkForNewVideo_eq nowhere_def)
       (simp add: lit_def)
qed

end
